theory Spec2Isabelle
  imports Main "HOL-Library.Word"
begin

section \<open>The Azure DNS provider of dnscontrol\<close>

text \<open>
  A shallow embedding of \<^verbatim>\<open>providers/azuredns/azureDnsProvider.go\<close>.

  Go values are modelled as follows.
  \<^item> A function returning \<^verbatim>\<open>(value, error)\<close> returns a pair whose second component is an
    \<open>error option\<close>; \<open>None\<close> is Go's \<^verbatim>\<open>nil\<close> error and a \<^verbatim>\<open>nil\<close> slice is the empty list.
  \<^item> A \<^verbatim>\<open>panic\<close> is the \<open>Inl\<close> branch of a sum: a function that may panic returns
    \<open>panic + 'a\<close>.
  \<^item> A pointer field that the code tests against \<^verbatim>\<open>nil\<close>, assigns, or dereferences is an
    \<open>option\<close>; dereferencing \<open>None\<close> panics. The members of a record-set
    (\<^verbatim>\<open>ARecord\<close>, \<^verbatim>\<open>MxRecord\<close>, ...) and the embedded \<^verbatim>\<open>RecordSetProperties\<close> are taken with
    their pointers filled, as the Azure SDK and \<^verbatim>\<open>recordToNative\<close> deliver them.
  \<^item> A \<^verbatim>\<open>Correction\<close>'s closure \<^verbatim>\<open>F\<close> is the remote call it makes when run, with the values
    it captured.
  \<^item> A Go \<^verbatim>\<open>map\<close> that is ranged over is an association list; its order stands for the
    order in which the runtime enumerates the map, which Go leaves unspecified.
  \<^item> The functions of other packages (\<^verbatim>\<open>models\<close>, \<^verbatim>\<open>diff\<close>, the Azure clients) are the
    fields of an environment record \<open>env\<close>.
\<close>

subsection \<open>Errors and panics\<close>

datatype error =
    errNoExist string
  | Errorf string
  | External string

datatype panic = Panic string

definition nilDereference :: panic where
  "nilDereference = Panic ''invalid memory address or nil pointer dereference''"

definition unimplemented :: "string \<Rightarrow> panic" where
  "unimplemented rtype = Panic (''rc.String rtype '' @ rtype @ '' unimplemented'')"

subsection \<open>Data\<close>

datatype RecordType = A | AAAA | CAA | CNAME | MX | NS | PTR | SOA | SRV | TXT

record RecordKey =
  k_NameFQDN :: string
  k_Type :: string

record RecordConfig =
  rc_Type :: string
  rc_Name :: string
  rc_NameFQDN :: string
  rc_Target :: string
  rc_TTL :: "32 word"
  rc_MxPreference :: "16 word"
  rc_SrvPriority :: "16 word"
  rc_SrvWeight :: "16 word"
  rc_SrvPort :: "16 word"
  rc_CaaTag :: string
  rc_CaaFlag :: "8 word"
  rc_TxtStrings :: "string list"

record DomainConfig =
  dc_Name :: string
  dc_Records :: "RecordConfig list"

record MxRecord =
  mx_Preference :: "32 word"
  mx_Exchange :: string

record SrvRecord =
  srv_Priority :: "32 word"
  srv_Weight :: "32 word"
  srv_Port :: "32 word"
  srv_Target :: string

record CaaRecord =
  caa_Flags :: "32 word"
  caa_Tag :: string
  caa_Value :: string

record RecordSet =
  rs_Name :: "string option"
  rs_Type :: "string option"
  rs_TTL :: "64 word option"
  rs_Fqdn :: "string option"
  rs_ARecords :: "string list option"
  rs_AaaaRecords :: "string list option"
  rs_MxRecords :: "MxRecord list option"
  rs_NsRecords :: "string list option"
  rs_PtrRecords :: "string list option"
  rs_SrvRecords :: "SrvRecord list option"
  rs_TxtRecords :: "string list list option"
  rs_CnameRecord :: "string option"
  rs_CaaRecords :: "CaaRecord list option"

record ZoneProperties =
  zp_NameServers :: "string list option"

record Zone =
  z_Name :: "string option"
  z_Location :: "string option"
  z_ZoneProperties :: "ZoneProperties option"

datatype Nameserver = Nameserver (ns_Name: string)

record azureDnsProvider =
  zones :: "string \<rightharpoonup> Zone"
  resourceGroup :: string

text \<open>
  The remote call a Correction's closure makes when it is run: \<^verbatim>\<open>recordsClient.Delete\<close> or
  \<^verbatim>\<open>recordsClient.CreateOrUpdate\<close>, with the resource group, the zone's name (a pointer the
  closure dereferences when it runs), the record-set's name and type, and for an upsert
  the payload.
\<close>

datatype action =
    RecordsDelete string "string option" "string option" RecordType
  | RecordsCreateOrUpdate string "string option" string RecordType RecordSet

record Correction =
  Msg :: string
  F :: action

text \<open>What \<^verbatim>\<open>EnsureDomainExists\<close> does to the outside world, in order.\<close>

datatype event =
    Printf string
  | ZonesCreateOrUpdate string string Zone

subsection \<open>The collaborators\<close>

record env =
  Punycode :: "DomainConfig \<Rightarrow> error + DomainConfig"
  SetLabelFromFQDN :: "string \<Rightarrow> string \<Rightarrow> RecordConfig \<Rightarrow> RecordConfig"
  SetTarget :: "string \<Rightarrow> RecordConfig \<Rightarrow> RecordConfig"
  SetTargetTXTs :: "string list \<Rightarrow> RecordConfig \<Rightarrow> RecordConfig"
  SetTargetMX :: "16 word \<Rightarrow> string \<Rightarrow> RecordConfig \<Rightarrow> RecordConfig"
  SetTargetSRV :: "16 word \<Rightarrow> 16 word \<Rightarrow> 16 word \<Rightarrow> string \<Rightarrow> RecordConfig \<Rightarrow> RecordConfig"
  SetTargetCAA :: "8 word \<Rightarrow> string \<Rightarrow> string \<Rightarrow> RecordConfig \<Rightarrow> RecordConfig"
  PostProcessRecords :: "RecordConfig list \<Rightarrow> RecordConfig list"
  ChangedGroups :: "DomainConfig \<Rightarrow> RecordConfig list \<Rightarrow> (RecordKey \<times> string list) list"
  ListAllByDNSZoneComplete :: "string \<Rightarrow> string \<Rightarrow> error + RecordSet list"
  ZonesClientCreateOrUpdate :: "string \<Rightarrow> string \<Rightarrow> Zone \<Rightarrow> error option"

text \<open>
  Modelled from the spec: \<^verbatim>\<open>RecordConfig.Key\<close> of package \<^verbatim>\<open>models\<close> is not in the source
  file. The spec's Record Key is the pair (fully-qualified name, type).
\<close>

definition Key :: "RecordConfig \<Rightarrow> RecordKey" where
  "Key rc = \<lparr>k_NameFQDN = rc_NameFQDN rc, k_Type = rc_Type rc\<rparr>"

subsection \<open>Strings\<close>

definition TrimSuffix :: "string \<Rightarrow> string \<Rightarrow> string" where
  "TrimSuffix s suffix =
     (if length suffix \<le> length s \<and> drop (length s - length suffix) s = suffix
      then take (length s - length suffix) s else s)"

fun Join :: "string list \<Rightarrow> string \<Rightarrow> string" where
  "Join [] sep = []"
| "Join [x] sep = x"
| "Join (x # y # ys) sep = x @ sep @ Join (y # ys) sep"

subsection \<open>Record types\<close>

definition nativeToRecordType :: "string option \<Rightarrow> panic + RecordType" where
  "nativeToRecordType recordType =
     (case recordType of
        None \<Rightarrow> Inl nilDereference
      | Some t \<Rightarrow>
          if t = ''A'' then Inr A
          else if t = ''AAAA'' then Inr AAAA
          else if t = ''CAA'' then Inr CAA
          else if t = ''CNAME'' then Inr CNAME
          else if t = ''MX'' then Inr MX
          else if t = ''NS'' then Inr NS
          else if t = ''PTR'' then Inr PTR
          else if t = ''SRV'' then Inr SRV
          else if t = ''TXT'' then Inr TXT
          else if t = ''SOA'' then Inr SOA
          else Inl (unimplemented t))"

definition azureRecordToRecordType :: "string option \<Rightarrow> panic + RecordType" where
  "azureRecordToRecordType recordType =
     (case recordType of
        None \<Rightarrow> Inl nilDereference
      | Some t \<Rightarrow>
          if t = ''Microsoft.Network/dnszones/A'' then Inr A
          else if t = ''Microsoft.Network/dnszones/AAAA'' then Inr AAAA
          else if t = ''Microsoft.Network/dnszones/CAA'' then Inr CAA
          else if t = ''Microsoft.Network/dnszones/CNAME'' then Inr CNAME
          else if t = ''Microsoft.Network/dnszones/MX'' then Inr MX
          else if t = ''Microsoft.Network/dnszones/NS'' then Inr NS
          else if t = ''Microsoft.Network/dnszones/PTR'' then Inr PTR
          else if t = ''Microsoft.Network/dnszones/SRV'' then Inr SRV
          else if t = ''Microsoft.Network/dnszones/TXT'' then Inr TXT
          else if t = ''Microsoft.Network/dnszones/SOA'' then Inr SOA
          else Inl (unimplemented t))"

subsection \<open>From the provider's record-sets to records\<close>

text \<open>\<^verbatim>\<open>&models.RecordConfig{TTL: ttl}\<close>: every other field has Go's zero value.\<close>

definition newRecordConfig :: "32 word \<Rightarrow> RecordConfig" where
  "newRecordConfig ttl =
     \<lparr>rc_Type = [], rc_Name = [], rc_NameFQDN = [], rc_Target = [], rc_TTL = ttl,
      rc_MxPreference = 0, rc_SrvPriority = 0, rc_SrvWeight = 0, rc_SrvPort = 0,
      rc_CaaTag = [], rc_CaaFlag = 0, rc_TxtStrings = []\<rparr>"

text \<open>
  The first three statements of every branch of \<^verbatim>\<open>nativeToRecords\<close>: a record with the
  set's TTL (an \<^verbatim>\<open>int64\<close> cut to \<^verbatim>\<open>uint32\<close>), labelled from the set's FQDN, of the type
  of the branch.
\<close>

definition labelled :: "env \<Rightarrow> RecordSet \<Rightarrow> string \<Rightarrow> string \<Rightarrow> panic + RecordConfig" where
  "labelled env rset origin rtype =
     (case rs_TTL rset of
        None \<Rightarrow> Inl nilDereference
      | Some ttl \<Rightarrow>
          (case rs_Fqdn rset of
             None \<Rightarrow> Inl nilDereference
           | Some fqdn \<Rightarrow>
               Inr ((SetLabelFromFQDN env fqdn origin (newRecordConfig (ucast ttl)))
                      \<lparr>rc_Type := rtype\<rparr>)))"

text \<open>A \<^verbatim>\<open>range\<close> loop that appends one result per member and stops at the first panic.\<close>

fun forEach :: "('a \<Rightarrow> panic + 'b) \<Rightarrow> 'a list \<Rightarrow> panic + 'b list" where
  "forEach f [] = Inr []"
| "forEach f (x # xs) =
     (case f x of
        Inl p \<Rightarrow> Inl p
      | Inr y \<Rightarrow> (case forEach f xs of Inl p \<Rightarrow> Inl p | Inr ys \<Rightarrow> Inr (y # ys)))"

definition members :: "'a list option \<Rightarrow> ('a \<Rightarrow> panic + 'b) \<Rightarrow> panic + 'b list" where
  "members ptr body = (case ptr of None \<Rightarrow> Inl nilDereference | Some recs \<Rightarrow> forEach body recs)"

definition nativeToRecords :: "env \<Rightarrow> RecordSet \<Rightarrow> string \<Rightarrow> panic + RecordConfig list" where
  "nativeToRecords env rset origin =
     (case rs_Type rset of
        None \<Rightarrow> Inl nilDereference
      | Some rtype \<Rightarrow>
          if rtype = ''Microsoft.Network/dnszones/A'' then
            members (rs_ARecords rset) (\<lambda>rec.
              map_sum id (SetTarget env rec) (labelled env rset origin ''A''))
          else if rtype = ''Microsoft.Network/dnszones/AAAA'' then
            members (rs_AaaaRecords rset) (\<lambda>rec.
              map_sum id (SetTarget env rec) (labelled env rset origin ''AAAA''))
          else if rtype = ''Microsoft.Network/dnszones/CNAME'' then
            (case labelled env rset origin ''CNAME'' of
               Inl p \<Rightarrow> Inl p
             | Inr rc \<Rightarrow>
                 (case rs_CnameRecord rset of
                    None \<Rightarrow> Inl nilDereference
                  | Some cname \<Rightarrow> Inr [SetTarget env cname rc]))
          else if rtype = ''Microsoft.Network/dnszones/NS'' then
            members (rs_NsRecords rset) (\<lambda>rec.
              map_sum id (SetTarget env rec) (labelled env rset origin ''NS''))
          else if rtype = ''Microsoft.Network/dnszones/PTR'' then
            members (rs_PtrRecords rset) (\<lambda>rec.
              map_sum id (SetTarget env rec) (labelled env rset origin ''PTR''))
          else if rtype = ''Microsoft.Network/dnszones/TXT'' then
            members (rs_TxtRecords rset) (\<lambda>rec.
              map_sum id (SetTargetTXTs env rec) (labelled env rset origin ''TXT''))
          else if rtype = ''Microsoft.Network/dnszones/MX'' then
            members (rs_MxRecords rset) (\<lambda>rec.
              map_sum id (SetTargetMX env (ucast (mx_Preference rec)) (mx_Exchange rec))
                (labelled env rset origin ''MX''))
          else if rtype = ''Microsoft.Network/dnszones/SRV'' then
            members (rs_SrvRecords rset) (\<lambda>rec.
              map_sum id
                (SetTargetSRV env (ucast (srv_Priority rec)) (ucast (srv_Weight rec))
                   (ucast (srv_Port rec)) (srv_Target rec))
                (labelled env rset origin ''SRV''))
          else if rtype = ''Microsoft.Network/dnszones/CAA'' then
            members (rs_CaaRecords rset) (\<lambda>rec.
              map_sum id
                (SetTargetCAA env (ucast (caa_Flags rec)) (caa_Tag rec) (caa_Value rec))
                (labelled env rset origin ''CAA''))
          else if rtype = ''Microsoft.Network/dnszones/SOA'' then Inr []
          else Inl (unimplemented rtype))"

subsection \<open>From records to the provider's record-set\<close>

definition newRecordSet :: "string \<Rightarrow> RecordSet" where
  "newRecordSet rtype =
     \<lparr>rs_Name = None, rs_Type = Some rtype, rs_TTL = None, rs_Fqdn = None,
      rs_ARecords = None, rs_AaaaRecords = None, rs_MxRecords = None, rs_NsRecords = None,
      rs_PtrRecords = None, rs_SrvRecords = None, rs_TxtRecords = None,
      rs_CnameRecord = None, rs_CaaRecords = None\<rparr>"

text \<open>\<^verbatim>\<open>if p == nil { p = &[]T{} }; *p = append(*p, x)\<close>\<close>

definition appended :: "'a list option \<Rightarrow> 'a \<Rightarrow> 'a list option" where
  "appended ptr x = Some ((case ptr of None \<Rightarrow> [] | Some xs \<Rightarrow> xs) @ [x])"

fun recordToNativeLoop :: "RecordKey \<Rightarrow> RecordConfig list \<Rightarrow> RecordSet \<Rightarrow> panic + RecordSet" where
  "recordToNativeLoop recordKey [] recordSet = Inr recordSet"
| "recordToNativeLoop recordKey (rec # recs) recordSet =
     (if k_Type recordKey = ''A'' then
        recordToNativeLoop recordKey recs
          (recordSet\<lparr>rs_ARecords := appended (rs_ARecords recordSet) (rc_Target rec)\<rparr>)
      else if k_Type recordKey = ''AAAA'' then
        recordToNativeLoop recordKey recs
          (recordSet\<lparr>rs_AaaaRecords := appended (rs_AaaaRecords recordSet) (rc_Target rec)\<rparr>)
      else if k_Type recordKey = ''CNAME'' then
        recordToNativeLoop recordKey recs (recordSet\<lparr>rs_CnameRecord := Some (rc_Target rec)\<rparr>)
      else if k_Type recordKey = ''NS'' then
        recordToNativeLoop recordKey recs
          (recordSet\<lparr>rs_NsRecords := appended (rs_NsRecords recordSet) (rc_Target rec)\<rparr>)
      else if k_Type recordKey = ''PTR'' then
        recordToNativeLoop recordKey recs
          (recordSet\<lparr>rs_PtrRecords := appended (rs_PtrRecords recordSet) (rc_Target rec)\<rparr>)
      else if k_Type recordKey = ''TXT'' then
        recordToNativeLoop recordKey recs
          (recordSet\<lparr>rs_TxtRecords := appended (rs_TxtRecords recordSet) (rc_TxtStrings rec)\<rparr>)
      else if k_Type recordKey = ''MX'' then
        recordToNativeLoop recordKey recs
          (recordSet\<lparr>rs_MxRecords := appended (rs_MxRecords recordSet)
             \<lparr>mx_Preference = ucast (rc_MxPreference rec), mx_Exchange = rc_Target rec\<rparr>\<rparr>)
      else if k_Type recordKey = ''SRV'' then
        recordToNativeLoop recordKey recs
          (recordSet\<lparr>rs_SrvRecords := appended (rs_SrvRecords recordSet)
             \<lparr>srv_Priority = ucast (rc_SrvPriority rec), srv_Weight = ucast (rc_SrvWeight rec),
              srv_Port = ucast (rc_SrvPort rec), srv_Target = rc_Target rec\<rparr>\<rparr>)
      else if k_Type recordKey = ''CAA'' then
        recordToNativeLoop recordKey recs
          (recordSet\<lparr>rs_CaaRecords := appended (rs_CaaRecords recordSet)
             \<lparr>caa_Flags = ucast (rc_CaaFlag rec), caa_Tag = rc_CaaTag rec,
              caa_Value = rc_Target rec\<rparr>\<rparr>)
      else Inl (unimplemented (k_Type recordKey)))"

definition recordToNative :: "RecordKey \<Rightarrow> RecordConfig list \<Rightarrow> panic + (RecordSet \<times> RecordType)" where
  "recordToNative recordKey recordConfig =
     (case recordToNativeLoop recordKey recordConfig (newRecordSet (k_Type recordKey)) of
        Inl p \<Rightarrow> Inl p
      | Inr recordSet \<Rightarrow>
          (case nativeToRecordType (Some (k_Type recordKey)) of
             Inl p \<Rightarrow> Inl p
           | Inr recordType \<Rightarrow> Inr (recordSet, recordType)))"

subsection \<open>Nameservers\<close>

definition GetNameservers :: "azureDnsProvider \<Rightarrow> string \<Rightarrow> panic + (Nameserver list \<times> error option)" where
  "GetNameservers a domain =
     (case zones a domain of
        None \<Rightarrow> Inr ([], Some (errNoExist domain))
      | Some zone \<Rightarrow>
          (case z_ZoneProperties zone of
             None \<Rightarrow> Inr ([], None)
           | Some props \<Rightarrow>
               (case zp_NameServers props of
                  None \<Rightarrow> Inl nilDereference
                | Some nss \<Rightarrow> Inr (map Nameserver nss, None))))"

subsection \<open>Corrections\<close>

definition fetchRecordSets :: "env \<Rightarrow> azureDnsProvider \<Rightarrow> string option \<Rightarrow> RecordSet list \<times> error option" where
  "fetchRecordSets env a zoneName =
     (case zoneName of
        None \<Rightarrow> ([], None)
      | Some zn \<Rightarrow>
          if zn = [] then ([], None)
          else (case ListAllByDNSZoneComplete env (resourceGroup a) zn of
                  Inl recordsErr \<Rightarrow> ([], Some recordsErr)
                | Inr rs \<Rightarrow> (rs, None)))"

text \<open>
  \<^verbatim>\<open>for _, set := range records { existingRecords = append(existingRecords,
  nativeToRecords(set, dc.Name)...) }\<close>
\<close>

fun existingRecordsLoop :: "env \<Rightarrow> string \<Rightarrow> RecordSet list \<Rightarrow> RecordConfig list \<Rightarrow> panic + RecordConfig list" where
  "existingRecordsLoop env origin [] existingRecords = Inr existingRecords"
| "existingRecordsLoop env origin (rset # records) existingRecords =
     (case nativeToRecords env rset origin of
        Inl p \<Rightarrow> Inl p
      | Inr rcs \<Rightarrow> existingRecordsLoop env origin records (existingRecords @ rcs))"

text \<open>
  The map \<^verbatim>\<open>updates\<close>: under every changed key, the desired records with that key, in the
  order of \<^verbatim>\<open>dc.Records\<close>.
\<close>

definition updatesOf :: "DomainConfig \<Rightarrow> (RecordKey \<times> string list) list \<Rightarrow> (RecordKey \<times> RecordConfig list) list" where
  "updatesOf dc namesToUpdate =
     map (\<lambda>(k, descr). (k, filter (\<lambda>rc. Key rc = k) (dc_Records dc))) namesToUpdate"

text \<open>\<^verbatim>\<open>strings.Join(namesToUpdate[k], "\n")\<close>; a key that is not in a Go map reads as \<^verbatim>\<open>nil\<close>.\<close>

definition msgOf :: "(RecordKey \<times> string list) list \<Rightarrow> RecordKey \<Rightarrow> string" where
  "msgOf namesToUpdate k =
     Join (case map_of namesToUpdate k of None \<Rightarrow> [] | Some descr \<Rightarrow> descr) [CHR 0x0A]"

text \<open>
  The search of the delete branch: the first record-set whose FQDN, without one trailing
  dot, is the key's name and whose type is the key's type. The closure converts the type of
  the set it found once more when it runs; the search returns that type with the set.
\<close>

fun findRRSet :: "RecordKey \<Rightarrow> RecordSet list \<Rightarrow> panic + (RecordSet \<times> RecordType) option" where
  "findRRSet k [] = Inr None"
| "findRRSet k (r # records) =
     (case rs_Fqdn r of
        None \<Rightarrow> Inl nilDereference
      | Some fqdn \<Rightarrow>
          if TrimSuffix fqdn ''.'' = k_NameFQDN k then
            (case azureRecordToRecordType (rs_Type r) of
               Inl p \<Rightarrow> Inl p
             | Inr existingRecordType \<Rightarrow>
                 (case nativeToRecordType (Some (k_Type k)) of
                    Inl p \<Rightarrow> Inl p
                  | Inr changedRecordType \<Rightarrow>
                      if existingRecordType = changedRecordType
                      then Inr (Some (r, existingRecordType))
                      else findRRSet k records))
          else findRRSet k records)"

text \<open>
  \<^verbatim>\<open>for _, r := range recs { i := int64(r.TTL); rrset.TTL = &i; recordName = r.Name }\<close>
\<close>

fun ttlLoop :: "RecordConfig list \<Rightarrow> RecordSet \<Rightarrow> string \<Rightarrow> RecordSet \<times> string" where
  "ttlLoop [] rrset recordName = (rrset, recordName)"
| "ttlLoop (r # recs) rrset recordName =
     ttlLoop recs (rrset\<lparr>rs_TTL := Some (ucast (rc_TTL r))\<rparr>) (rc_Name r)"

text \<open>The scan of the upsert branch for record-sets a CNAME cannot coexist with.\<close>

fun conflictScan :: "azureDnsProvider \<Rightarrow> Zone \<Rightarrow> string \<Rightarrow> RecordKey \<Rightarrow> string \<Rightarrow> RecordSet list \<Rightarrow> Correction list \<Rightarrow> panic + Correction list" where
  "conflictScan a zone msg k recordName [] corrections = Inr corrections"
| "conflictScan a zone msg k recordName (r # records) corrections =
     (case azureRecordToRecordType (rs_Type r) of
        Inl p \<Rightarrow> Inl p
      | Inr existingRecordType \<Rightarrow>
          (case nativeToRecordType (Some (k_Type k)) of
             Inl p \<Rightarrow> Inl p
           | Inr changedRecordType \<Rightarrow>
               (case rs_Fqdn r of
                  None \<Rightarrow> Inl nilDereference
                | Some fqdn \<Rightarrow>
                    if TrimSuffix fqdn ''.'' = k_NameFQDN k
                       \<and> (changedRecordType = CNAME \<or> existingRecordType = CNAME)
                    then
                      if existingRecordType = A \<or> existingRecordType = AAAA
                         \<or> changedRecordType = A \<or> changedRecordType = AAAA
                      then conflictScan a zone msg k recordName records
                             (corrections @
                                [\<lparr>Msg = msg,
                                  F = RecordsDelete (resourceGroup a) (z_Name zone)
                                        (Some recordName) existingRecordType\<rparr>])
                      else conflictScan a zone msg k recordName records corrections
                    else conflictScan a zone msg k recordName records corrections)))"

text \<open>\<^verbatim>\<open>for k, recs := range updates { ... }\<close>, with the corrections appended so far.\<close>

fun planLoop :: "azureDnsProvider \<Rightarrow> Zone \<Rightarrow> RecordSet list \<Rightarrow> (RecordKey \<times> string list) list \<Rightarrow> (RecordKey \<times> RecordConfig list) list \<Rightarrow> Correction list \<Rightarrow> panic + (Correction list \<times> error option)" where
  "planLoop a zone records namesToUpdate [] corrections = Inr (corrections, None)"
| "planLoop a zone records namesToUpdate ((k, recs) # updates) corrections =
     (if recs = [] then
        (case findRRSet k records of
           Inl p \<Rightarrow> Inl p
         | Inr (Some (rrset, rrsetType)) \<Rightarrow>
             planLoop a zone records namesToUpdate updates
               (corrections @
                  [\<lparr>Msg = msgOf namesToUpdate k,
                    F = RecordsDelete (resourceGroup a) (z_Name zone) (rs_Name rrset) rrsetType\<rparr>])
         | Inr None \<Rightarrow>
             Inr ([], Some (Errorf (''no record set found to delete. Name: '' @ [CHR 0x27]
                                    @ k_NameFQDN k @ [CHR 0x27] @ ''. Type: '' @ [CHR 0x27]
                                    @ k_Type k @ [CHR 0x27]))))
      else
        (case recordToNative k recs of
           Inl p \<Rightarrow> Inl p
         | Inr (rrset0, recordType) \<Rightarrow>
             (case ttlLoop recs rrset0 [] of
                (rrset, recordName) \<Rightarrow>
                  (case conflictScan a zone (msgOf namesToUpdate k) k recordName records corrections of
                     Inl p \<Rightarrow> Inl p
                   | Inr corrections' \<Rightarrow>
                       planLoop a zone records namesToUpdate updates
                         (corrections' @
                            [\<lparr>Msg = msgOf namesToUpdate k,
                              F = RecordsCreateOrUpdate (resourceGroup a) (z_Name zone)
                                    recordName recordType rrset\<rparr>])))))"

definition GetDomainCorrections :: "env \<Rightarrow> azureDnsProvider \<Rightarrow> DomainConfig \<Rightarrow> panic + (Correction list \<times> error option)" where
  "GetDomainCorrections env a dc0 =
     (case Punycode env dc0 of
        Inl err \<Rightarrow> Inr ([], Some err)
      | Inr dc \<Rightarrow>
          (case zones a (dc_Name dc) of
             None \<Rightarrow> Inr ([], Some (errNoExist (dc_Name dc)))
           | Some zone \<Rightarrow>
               (case fetchRecordSets env a (z_Name zone) of
                  (records, Some err) \<Rightarrow> Inr ([], Some err)
                | (records, None) \<Rightarrow>
                    (case existingRecordsLoop env (dc_Name dc) records [] of
                       Inl p \<Rightarrow> Inl p
                     | Inr existingRecords \<Rightarrow>
                         (let namesToUpdate =
                                ChangedGroups env dc (PostProcessRecords env existingRecords)
                          in if namesToUpdate = [] then Inr ([], None)
                             else planLoop a zone records namesToUpdate
                                    (updatesOf dc namesToUpdate) [])))))"

subsection \<open>Creating a zone\<close>

text \<open>
  \<^verbatim>\<open>EnsureDomainExists\<close> has a pointer receiver: the model returns the provider as the method
  leaves it, what it did to the outside world, and its error.
\<close>

definition EnsureDomainExists :: "env \<Rightarrow> azureDnsProvider \<Rightarrow> string \<Rightarrow> azureDnsProvider \<times> event list \<times> error option" where
  "EnsureDomainExists env a domain =
     (case zones a domain of
        Some zone \<Rightarrow> (a, [], None)
      | None \<Rightarrow>
          (let z = \<lparr>z_Name = None, z_Location = Some ''global'', z_ZoneProperties = None\<rparr>
           in (a,
               [Printf (''Adding zone for '' @ domain @ '' to Azure dns account'' @ [CHR 0x0A]),
                ZonesCreateOrUpdate (resourceGroup a) domain z],
               ZonesClientCreateOrUpdate env (resourceGroup a) domain z)))"

section \<open>Notions used by the properties\<close>

text \<open>
  The first half of \<^verbatim>\<open>GetDomainCorrections\<close>, up to the call of the differ: the converted
  configuration, the zone, the record-sets listed, and the changed keys with their
  descriptions. \<open>None\<close> when the method returns or panics before that.
\<close>

definition upToDiffer :: "env \<Rightarrow> azureDnsProvider \<Rightarrow> DomainConfig \<Rightarrow> (DomainConfig \<times> Zone \<times> RecordSet list \<times> (RecordKey \<times> string list) list) option" where
  "upToDiffer env a dc0 =
     (case Punycode env dc0 of
        Inl err \<Rightarrow> None
      | Inr dc \<Rightarrow>
          (case zones a (dc_Name dc) of
             None \<Rightarrow> None
           | Some zone \<Rightarrow>
               (case fetchRecordSets env a (z_Name zone) of
                  (records, Some err) \<Rightarrow> None
                | (records, None) \<Rightarrow>
                    (case existingRecordsLoop env (dc_Name dc) records [] of
                       Inl p \<Rightarrow> None
                     | Inr existingRecords \<Rightarrow>
                         Some (dc, zone, records,
                               ChangedGroups env dc (PostProcessRecords env existingRecords))))))"

text \<open>The desired records under a key: the value of \<^verbatim>\<open>updates[k]\<close>.\<close>

definition desired :: "DomainConfig \<Rightarrow> RecordKey \<Rightarrow> RecordConfig list" where
  "desired dc k = filter (\<lambda>rc. Key rc = k) (dc_Records dc)"

text \<open>
  An existing record-set matches a key when its fully-qualified name, without one trailing
  dot, is the key's name and its type is the key's type.
\<close>

definition matches :: "RecordKey \<Rightarrow> RecordSet \<Rightarrow> bool" where
  "matches k r =
     (case rs_Fqdn r of
        None \<Rightarrow> False
      | Some fqdn \<Rightarrow>
          TrimSuffix fqdn ''.'' = k_NameFQDN k
          \<and> (case azureRecordToRecordType (rs_Type r) of
                Inl p \<Rightarrow> False
              | Inr existing \<Rightarrow> nativeToRecordType (Some (k_Type k)) = Inr existing))"

text \<open>
  An existing record-set conflicts with an incoming key when it is at the key's
  fully-qualified name, the incoming type is CNAME or the existing type is CNAME, and one of
  the two types is A or AAAA. \<open>conflictType\<close> is then the existing set's type.
\<close>

definition conflictType :: "RecordKey \<Rightarrow> RecordSet \<Rightarrow> RecordType option" where
  "conflictType k r =
     (case rs_Fqdn r of
        None \<Rightarrow> None
      | Some fqdn \<Rightarrow>
          (case azureRecordToRecordType (rs_Type r) of
             Inl p \<Rightarrow> None
           | Inr existing \<Rightarrow>
               (case nativeToRecordType (Some (k_Type k)) of
                  Inl p \<Rightarrow> None
                | Inr incoming \<Rightarrow>
                    if TrimSuffix fqdn ''.'' = k_NameFQDN k
                       \<and> (incoming = CNAME \<or> existing = CNAME)
                       \<and> (existing \<in> {A, AAAA} \<or> incoming \<in> {A, AAAA})
                    then Some existing else None)))"

definition deleteCorrection :: "azureDnsProvider \<Rightarrow> Zone \<Rightarrow> string \<Rightarrow> string option \<Rightarrow> RecordType \<Rightarrow> Correction" where
  "deleteCorrection a zone msg name rtype =
     \<lparr>Msg = msg, F = RecordsDelete (resourceGroup a) (z_Name zone) name rtype\<rparr>"

definition upsertCorrection :: "azureDnsProvider \<Rightarrow> Zone \<Rightarrow> string \<Rightarrow> string \<Rightarrow> RecordType \<Rightarrow> RecordSet \<Rightarrow> Correction" where
  "upsertCorrection a zone msg name rtype rrset =
     \<lparr>Msg = msg, F = RecordsCreateOrUpdate (resourceGroup a) (z_Name zone) name rtype rrset\<rparr>"

text \<open>One delete for every conflicting existing record-set, in the order of the listing.\<close>

definition conflictDeletes :: "azureDnsProvider \<Rightarrow> Zone \<Rightarrow> string \<Rightarrow> RecordKey \<Rightarrow> string \<Rightarrow> RecordSet list \<Rightarrow> Correction list" where
  "conflictDeletes a zone msg k recordName records =
     map (deleteCorrection a zone msg (Some recordName)) (List.map_filter (conflictType k) records)"

definition noRecordSetFound :: "RecordKey \<Rightarrow> error" where
  "noRecordSetFound k =
     Errorf (''no record set found to delete. Name: '' @ [CHR 0x27] @ k_NameFQDN k @ [CHR 0x27]
             @ ''. Type: '' @ [CHR 0x27] @ k_Type k @ [CHR 0x27])"

text \<open>The record types of the spec's data model; SOA is not one of them.\<close>

definition supportedTypes :: "string list" where
  "supportedTypes = [''A'', ''AAAA'', ''CNAME'', ''MX'', ''NS'', ''PTR'', ''SRV'', ''TXT'', ''CAA'']"

text \<open>
  A plan continued after the corrections \<open>acc\<close>: a panic and an error stay as they are,
  a successful plan is appended.
\<close>

definition continued :: "Correction list \<Rightarrow> panic + (Correction list \<times> error option) \<Rightarrow> panic + (Correction list \<times> error option)" where
  "continued acc res =
     (case res of
        Inl p \<Rightarrow> Inl p
      | Inr (cs, None) \<Rightarrow> Inr (acc @ cs, None)
      | Inr (cs, Some e) \<Rightarrow> Inr (cs, Some e))"

definition isZoneCreation :: "event \<Rightarrow> bool" where
  "isZoneCreation ev = (case ev of ZonesCreateOrUpdate rg domain z \<Rightarrow> True | Printf s \<Rightarrow> False)"

section \<open>A sample account\<close>

text \<open>
  One zone, \<^verbatim>\<open>example.com\<close>, that holds an SOA set at the apex and an A set at \<^verbatim>\<open>host\<close>. The
  sample collaborators convert nothing, label a record from the FQDN without the zone,
  store targets in the record's fields, list \<open>sampleListing\<close> for every zone, and report
  the changed keys they are given.
\<close>

definition sampleZone :: Zone where
  "sampleZone =
     \<lparr>z_Name = Some ''example.com'', z_Location = Some ''global'',
      z_ZoneProperties = Some \<lparr>zp_NameServers = Some [''ns1-01.azure-dns.com.'']\<rparr>\<rparr>"

definition sampleProvider :: azureDnsProvider where
  "sampleProvider = \<lparr>zones = [''example.com'' \<mapsto> sampleZone], resourceGroup = ''dns''\<rparr>"

definition zoneSOA :: RecordSet where
  "zoneSOA =
     (newRecordSet ''Microsoft.Network/dnszones/SOA'')
       \<lparr>rs_Name := Some ''@'', rs_TTL := Some 3600, rs_Fqdn := Some ''example.com.''\<rparr>"

definition hostA :: RecordSet where
  "hostA =
     (newRecordSet ''Microsoft.Network/dnszones/A'')
       \<lparr>rs_Name := Some ''host'', rs_TTL := Some 300, rs_Fqdn := Some ''host.example.com.'',
        rs_ARecords := Some [''1.1.1.1'']\<rparr>"

definition sampleListing :: "RecordSet list" where
  "sampleListing = [zoneSOA, hostA]"

definition sampleEnv :: "(RecordKey \<times> string list) list \<Rightarrow> env" where
  "sampleEnv changed =
     \<lparr>Punycode = Inr,
      SetLabelFromFQDN = (\<lambda>fqdn origin rc.
        rc\<lparr>rc_Name := TrimSuffix (TrimSuffix fqdn ''.'') (''.'' @ origin),
           rc_NameFQDN := TrimSuffix fqdn ''.''\<rparr>),
      SetTarget = (\<lambda>target rc. rc\<lparr>rc_Target := target\<rparr>),
      SetTargetTXTs = (\<lambda>txts rc. rc\<lparr>rc_TxtStrings := txts\<rparr>),
      SetTargetMX = (\<lambda>pref target rc. rc\<lparr>rc_MxPreference := pref, rc_Target := target\<rparr>),
      SetTargetSRV = (\<lambda>priority weight port target rc.
        rc\<lparr>rc_SrvPriority := priority, rc_SrvWeight := weight, rc_SrvPort := port,
           rc_Target := target\<rparr>),
      SetTargetCAA = (\<lambda>flag tag target rc.
        rc\<lparr>rc_CaaFlag := flag, rc_CaaTag := tag, rc_Target := target\<rparr>),
      PostProcessRecords = (\<lambda>recs. recs),
      ChangedGroups = (\<lambda>dc existing. changed),
      ListAllByDNSZoneComplete = (\<lambda>rg zoneName. Inr sampleListing),
      ZonesClientCreateOrUpdate = (\<lambda>rg domain z. None)\<rparr>"

definition desiredRecord :: "string \<Rightarrow> string \<Rightarrow> string \<Rightarrow> 32 word \<Rightarrow> RecordConfig" where
  "desiredRecord rtype label target ttl =
     (newRecordConfig ttl)
       \<lparr>rc_Type := rtype, rc_Name := label, rc_NameFQDN := label @ ''.example.com'',
        rc_Target := target\<rparr>"

definition hostCNAME :: RecordConfig where
  "hostCNAME = desiredRecord ''CNAME'' ''host'' ''target.example.com.'' 300"

definition www1 :: RecordConfig where
  "www1 = desiredRecord ''A'' ''www'' ''1.2.3.4'' 300"

definition www2 :: RecordConfig where
  "www2 = desiredRecord ''A'' ''www'' ''1.2.3.5'' 600"

definition aliasRecord :: RecordConfig where
  "aliasRecord = desiredRecord ''ALIAS'' ''apex'' ''other.example.net.'' 300"

definition sampleConfig :: DomainConfig where
  "sampleConfig = \<lparr>dc_Name = ''example.com'', dc_Records = [hostCNAME, www1, www2]\<rparr>"

definition sampleChanges :: "(RecordKey \<times> string list) list" where
  "sampleChanges =
     [(\<lparr>k_NameFQDN = ''host.example.com'', k_Type = ''CNAME''\<rparr>, [''CREATE CNAME host'']),
      (\<lparr>k_NameFQDN = ''host.example.com'', k_Type = ''A''\<rparr>, [''DELETE A host'']),
      (\<lparr>k_NameFQDN = ''www.example.com'', k_Type = ''A''\<rparr>,
       [''CREATE A www 1.2.3.4'', ''CREATE A www 1.2.3.5''])]"

text \<open>The plan for the sample: four corrections.\<close>

definition samplePlan :: "Correction list" where
  "samplePlan =
     [deleteCorrection sampleProvider sampleZone ''CREATE CNAME host'' (Some ''host'') A,
      upsertCorrection sampleProvider sampleZone ''CREATE CNAME host'' ''host'' CNAME
        ((newRecordSet ''CNAME'')
           \<lparr>rs_TTL := Some 300, rs_CnameRecord := Some ''target.example.com.''\<rparr>),
      deleteCorrection sampleProvider sampleZone ''DELETE A host'' (Some ''host'') A,
      upsertCorrection sampleProvider sampleZone
        (''CREATE A www 1.2.3.4'' @ [CHR 0x0A] @ ''CREATE A www 1.2.3.5'') ''www'' A
        ((newRecordSet ''A'')\<lparr>rs_TTL := Some 600, rs_ARecords := Some [''1.2.3.4'', ''1.2.3.5'']\<rparr>)]"

text \<open>
  A second configuration, with a record of a type the provider does not support, and
  changes that ask for the deletion of a record-set the zone does not hold.
\<close>

definition brokenConfig :: DomainConfig where
  "brokenConfig = \<lparr>dc_Name = ''example.com'', dc_Records = [hostCNAME, aliasRecord]\<rparr>"

definition brokenChanges :: "(RecordKey \<times> string list) list" where
  "brokenChanges =
     [(\<lparr>k_NameFQDN = ''host.example.com'', k_Type = ''CNAME''\<rparr>, [''CREATE CNAME host'']),
      (\<lparr>k_NameFQDN = ''gone.example.com'', k_Type = ''A''\<rparr>, [''DELETE A gone'']),
      (\<lparr>k_NameFQDN = ''apex.example.com'', k_Type = ''ALIAS''\<rparr>, [''CREATE ALIAS apex''])]"

section \<open>Lemmas about the planning loop\<close>

lemma conflictScan_acc:
  "conflictScan a zone msg k rn records acc =
     map_sum (\<lambda>p. p) (\<lambda>cs. acc @ cs) (conflictScan a zone msg k rn records [])"
proof (induction records arbitrary: acc)
  case Nil
  show ?case by simp
next
  case (Cons r records)
  have step: "conflictScan a zone msg k rn records (acc @ [d]) =
        map_sum (\<lambda>p. p) (\<lambda>cs. acc @ cs) (conflictScan a zone msg k rn records [d])" for d
  proof -
    have "conflictScan a zone msg k rn records (acc @ [d]) =
        map_sum (\<lambda>p. p) (\<lambda>cs. (acc @ [d]) @ cs) (conflictScan a zone msg k rn records [])"
      by (rule Cons.IH)
    moreover have "conflictScan a zone msg k rn records [d] =
        map_sum (\<lambda>p. p) (\<lambda>cs. [d] @ cs) (conflictScan a zone msg k rn records [])"
      by (rule Cons.IH)
    ultimately show ?thesis
      by (cases "conflictScan a zone msg k rn records []") simp_all
  qed
  show ?case
    by (simp add: step Cons.IH [of acc] split: sum.splits option.splits)
qed

lemma conflictScan_Inr:
  "conflictScan a zone msg k rn records acc = Inr cs \<Longrightarrow>
     cs = acc @ conflictDeletes a zone msg k rn records"
proof (induction records arbitrary: acc)
  case Nil
  then show ?case by (simp add: conflictDeletes_def List.map_filter_simps)
next
  case (Cons r records)
  from Cons.prems show ?case
    by (auto simp: conflictDeletes_def List.map_filter_simps conflictType_def deleteCorrection_def
        split: sum.splits option.splits if_splits dest!: Cons.IH)
qed


lemma continued_continued: "continued acc (continued acc' res) = continued (acc @ acc') res"
  by (simp add: continued_def split: sum.splits option.splits prod.splits)

lemma ttlLoop_last:
  "recs \<noteq> [] \<Longrightarrow>
     ttlLoop recs rrset recordName =
       (rrset\<lparr>rs_TTL := Some (ucast (rc_TTL (last recs)))\<rparr>, rc_Name (last recs))"
proof (induction recs arbitrary: rrset recordName)
  case Nil
  then show ?case by simp
next
  case (Cons r recs)
  show ?case
  proof (cases "recs = []")
    case True
    then show ?thesis by simp
  next
    case False
    then show ?thesis by (simp add: Cons.IH)
  qed
qed

lemma planLoop_acc:
  "planLoop a zone records n ups acc = continued acc (planLoop a zone records n ups [])"
proof (induction ups arbitrary: acc)
  case Nil
  show ?case by (simp add: continued_def)
next
  case (Cons u ups)
  obtain k recs where u: "u = (k, recs)" by (cases u)
  have step: "planLoop a zone records n ups (acc @ ds) =
      continued acc (planLoop a zone records n ups ds)" for ds
  proof -
    have "planLoop a zone records n ups (acc @ ds) =
        continued (acc @ ds) (planLoop a zone records n ups [])"
      by (rule Cons.IH)
    moreover have "planLoop a zone records n ups ds =
        continued ds (planLoop a zone records n ups [])"
      by (rule Cons.IH)
    ultimately show ?thesis by (simp add: continued_continued)
  qed
  show ?case
  proof (cases "recs = []")
    case True
    show ?thesis
      unfolding u using True
      by (simp add: step [of "[d]" for d, simplified] continued_def
          split: sum.splits option.splits prod.splits)
  next
    case False
    have scan: "conflictScan a zone m k rn records acc =
        map_sum (\<lambda>p. p) (\<lambda>cs. acc @ cs) (conflictScan a zone m k rn records [])" for m rn
      by (rule conflictScan_acc)
    show ?thesis
      unfolding u using False
      by (simp add: scan step [simplified] continued_def
          split: sum.splits option.splits prod.splits)
  qed
qed



lemma planLoop_upsert_step:
  "recs \<noteq> [] \<Longrightarrow>
   planLoop a zone records n ((k, recs) # ups) acc =
     (case recordToNative k recs of
        Inl p \<Rightarrow> Inl p
      | Inr (rrset0, recordType) \<Rightarrow>
          (case conflictScan a zone (msgOf n k) k (rc_Name (last recs)) records [] of
             Inl p \<Rightarrow> Inl p
           | Inr deletes \<Rightarrow>
               continued
                 (acc @ deletes @
                    [upsertCorrection a zone (msgOf n k) (rc_Name (last recs)) recordType
                       (rrset0\<lparr>rs_TTL := Some (ucast (rc_TTL (last recs)))\<rparr>)])
                 (planLoop a zone records n ups [])))"
  by (simp add: planLoop_acc [of a zone records n ups "ds @ es" for ds es] ttlLoop_last
      conflictScan_acc [of a zone m k rn records acc for m rn] upsertCorrection_def
      split: sum.splits option.splits prod.splits)

lemma planLoop_append:
  "planLoop a zone records n (ups @ ups') acc =
     (case planLoop a zone records n ups acc of
        Inl p \<Rightarrow> Inl p
      | Inr (cs, None) \<Rightarrow> planLoop a zone records n ups' cs
      | Inr (cs, Some e) \<Rightarrow> Inr (cs, Some e))"
proof (induction ups arbitrary: acc)
  case Nil
  show ?case by simp
next
  case (Cons u ups)
  obtain k recs where u: "u = (k, recs)" by (cases u)
  show ?case
    unfolding u
    by (simp add: Cons.IH split: sum.splits option.splits prod.splits)
qed

lemma planLoop_error:
  "planLoop a zone records n ups acc = Inr (cs, Some e) \<Longrightarrow> cs = []"
proof (induction ups arbitrary: acc)
  case Nil
  then show ?case by simp
next
  case (Cons u ups)
  obtain k recs where u: "u = (k, recs)" by (cases u)
  from Cons.prems show ?case
    unfolding u
    by (auto split: sum.splits option.splits prod.splits if_splits dest: Cons.IH)
qed

lemma GetDomainCorrections_plan:
  "upToDiffer env a dc0 = Some (dc, zone, records, n) \<Longrightarrow>
     GetDomainCorrections env a dc0 = planLoop a zone records n (updatesOf dc n) []"
  by (auto simp: upToDiffer_def GetDomainCorrections_def Let_def updatesOf_def
      split: sum.splits option.splits prod.splits)

lemma GetDomainCorrections_early:
  "upToDiffer env a dc0 = None \<Longrightarrow>
     (\<exists>p. GetDomainCorrections env a dc0 = Inl p)
     \<or> (\<exists>e. GetDomainCorrections env a dc0 = Inr ([], Some e))"
  by (auto simp: upToDiffer_def GetDomainCorrections_def Let_def
      split: sum.splits option.splits prod.splits)

lemma updatesOf_split:
  "updatesOf dc (pre @ (k, d) # post) =
     updatesOf dc pre @ (k, desired dc k) # updatesOf dc post"
  by (simp add: updatesOf_def desired_def)


lemma findRRSet_Cons_None:
  "findRRSet k (r # records) = Inr None \<Longrightarrow> \<not> matches k r \<and> findRRSet k records = Inr None"
  by (auto simp: matches_def split: sum.splits option.splits if_splits)

lemma findRRSet_None:
  "findRRSet k records = Inr None \<Longrightarrow> \<forall>r\<in>set records. \<not> matches k r"
proof (induction records)
  case Nil
  show ?case by simp
next
  case (Cons r records)
  from findRRSet_Cons_None [OF Cons.prems] Cons.IH show ?case by simp
qed



lemma recordToNative_unsupported:
  "recs \<noteq> [] \<Longrightarrow> k_Type k \<notin> set supportedTypes \<Longrightarrow>
     recordToNative k recs = Inl (unimplemented (k_Type k))"
  by (cases recs) (simp_all add: recordToNative_def supportedTypes_def)

lemma planLoop_unsupported:
  "(k, recs) \<in> set ups \<Longrightarrow> recs \<noteq> [] \<Longrightarrow> k_Type k \<notin> set supportedTypes \<Longrightarrow>
     planLoop a zone records n ups acc \<noteq> Inr (cs, None)"
proof (induction ups arbitrary: acc)
  case Nil
  then show ?case by simp
next
  case (Cons u ups)
  obtain k' recs' where u: "u = (k', recs')" by (cases u)
  show ?case
  proof (cases "(k, recs) = u")
    case True
    with Cons.prems show ?thesis
      by (auto simp: planLoop_upsert_step recordToNative_unsupported)
  next
    case False
    with Cons.prems have "(k, recs) \<in> set ups" by simp
    then have IH: "planLoop a zone records n ups acc' \<noteq> Inr (cs, None)" for acc'
      using Cons.IH Cons.prems by blast
    show ?thesis
      unfolding u using IH
      by (auto split: sum.splits option.splits prod.splits if_splits)
  qed
qed


lemmas sample_defs =
  sampleZone_def sampleProvider_def zoneSOA_def hostA_def sampleListing_def sampleEnv_def
  desiredRecord_def hostCNAME_def www1_def www2_def aliasRecord_def sampleConfig_def
  sampleChanges_def brokenConfig_def brokenChanges_def newRecordSet_def newRecordConfig_def

lemma sample_upToDiffer:
  "upToDiffer (sampleEnv changed) sampleProvider sampleConfig =
     Some (sampleConfig, sampleZone, sampleListing, changed)"
  by (simp add: upToDiffer_def fetchRecordSets_def nativeToRecords_def members_def labelled_def
      sample_defs)

lemma broken_upToDiffer:
  "upToDiffer (sampleEnv changed) sampleProvider brokenConfig =
     Some (brokenConfig, sampleZone, sampleListing, changed)"
  by (simp add: upToDiffer_def fetchRecordSets_def nativeToRecords_def members_def labelled_def
      sample_defs)

lemma sample_plan:
  "GetDomainCorrections (sampleEnv sampleChanges) sampleProvider sampleConfig =
     Inr (samplePlan, None)"
  unfolding GetDomainCorrections_plan [OF sample_upToDiffer]
  by (simp add: updatesOf_def Key_def
      recordToNative_def nativeToRecordType_def azureRecordToRecordType_def TrimSuffix_def
      msgOf_def appended_def samplePlan_def deleteCorrection_def upsertCorrection_def sample_defs)

lemma broken_plan:
  "GetDomainCorrections (sampleEnv brokenChanges) sampleProvider brokenConfig =
     Inr ([], Some (noRecordSetFound \<lparr>k_NameFQDN = ''gone.example.com'', k_Type = ''A''\<rparr>))"
  unfolding GetDomainCorrections_plan [OF broken_upToDiffer]
  by (simp add: updatesOf_def Key_def
      recordToNative_def nativeToRecordType_def azureRecordToRecordType_def TrimSuffix_def
      msgOf_def appended_def noRecordSetFound_def sample_defs)

lemma plan_split:
  assumes up: "upToDiffer env a dc0 = Some (dc, zone, records, pre @ (k, d) # post)"
    and ok: "GetDomainCorrections env a dc0 = Inr (cs, None)"
  shows "\<exists>before grp after.
           planLoop a zone records (pre @ (k, d) # post) (updatesOf dc pre) [] = Inr (before, None)
         \<and> planLoop a zone records (pre @ (k, d) # post) [(k, desired dc k)] [] = Inr (grp, None)
         \<and> planLoop a zone records (pre @ (k, d) # post) (updatesOf dc post) [] = Inr (after, None)
         \<and> cs = before @ grp @ after"
proof -
  let ?n = "pre @ (k, d) # post"
  let ?plan = "planLoop a zone records ?n"
  have "?plan (updatesOf dc pre @ ([(k, desired dc k)] @ updatesOf dc post)) [] = Inr (cs, None)"
    using GetDomainCorrections_plan [OF up] ok
    by (simp del: planLoop.simps add: updatesOf_split)
  then obtain before where before: "?plan (updatesOf dc pre) [] = Inr (before, None)"
    and rest: "?plan ([(k, desired dc k)] @ updatesOf dc post) before = Inr (cs, None)"
    by (auto simp del: planLoop.simps append.simps
        simp: planLoop_append [of a zone records ?n "updatesOf dc pre"]
        split: sum.splits option.splits prod.splits)
  from rest obtain mid where mid: "?plan [(k, desired dc k)] before = Inr (mid, None)"
    and post: "?plan (updatesOf dc post) mid = Inr (cs, None)"
    by (auto simp del: planLoop.simps append.simps
        simp: planLoop_append [of a zone records ?n "[(k, desired dc k)]"]
        split: sum.splits option.splits prod.splits)
  from mid obtain grp where grp: "?plan [(k, desired dc k)] [] = Inr (grp, None)"
    and mid_eq: "mid = before @ grp"
    by (subst (asm) planLoop_acc)
      (auto simp del: planLoop.simps simp: continued_def
        split: sum.splits option.splits prod.splits)
  from post obtain after where after: "?plan (updatesOf dc post) [] = Inr (after, None)"
    and cs_eq: "cs = mid @ after"
    by (subst (asm) planLoop_acc)
      (auto simp del: planLoop.simps simp: continued_def
        split: sum.splits option.splits prod.splits)
  from before grp after mid_eq cs_eq show ?thesis by simp
qed


lemma group_upsert:
  assumes "planLoop a zone records n [(k, recs)] [] = Inr (grp, None)" and "recs \<noteq> []"
  shows "\<exists>rrset0 recordType.
           recordToNative k recs = Inr (rrset0, recordType)
         \<and> grp = conflictDeletes a zone (msgOf n k) k (rc_Name (last recs)) records @
             [upsertCorrection a zone (msgOf n k) (rc_Name (last recs)) recordType
                (rrset0\<lparr>rs_TTL := Some (ucast (rc_TTL (last recs)))\<rparr>)]"
  using assms
  by (auto simp del: planLoop.simps(2) simp: planLoop_upsert_step continued_def
      split: sum.splits option.splits prod.splits dest!: conflictScan_Inr)

lemma sint_ucast_32_64: "sint (ucast (x :: 32 word) :: 64 word) = uint x"
proof -
  have "uint x < 2 ^ 32" using uint_bounded [of x] by simp
  moreover have "(2::int) ^ 32 \<le> 2 ^ 63" by simp
  ultimately have lt: "uint x < 2 ^ 63" by linarith
  have ge: "0 \<le> uint x" by simp
  have "take_bit 64 (uint x) = uint x"
    using lt ge by (simp add: take_bit_int_eq_self)
  moreover have "signed_take_bit 63 (uint x) = uint x"
  proof (rule signed_take_bit_int_eq_self)
    have "- ((2::int) ^ 63) \<le> 0" by simp
    with ge show "- (2 ^ 63) \<le> uint x" by linarith
    show "uint x < 2 ^ 63" by (rule lt)
  qed
  ultimately show ?thesis by (simp add: sint_uint unsigned_ucast_eq)
qed

lemma GetNameservers_unknown:
  "zones a domain = None \<Longrightarrow> GetNameservers a domain = Inr ([], Some (errNoExist domain))"
  by (simp add: GetNameservers_def)

lemma GetDomainCorrections_unknown:
  "Punycode env dc0 = Inr dc \<Longrightarrow> zones a (dc_Name dc) = None \<Longrightarrow>
     GetDomainCorrections env a dc0 = Inr ([], Some (errNoExist (dc_Name dc)))"
  by (simp add: GetDomainCorrections_def)

lemma EnsureDomainExists_provider: "fst (EnsureDomainExists env a domain) = a"
  by (simp add: EnsureDomainExists_def Let_def split: option.splits)

lemma conflictDeletes_complete:
  "r \<in> set records \<Longrightarrow> conflictType k r = Some t \<Longrightarrow>
     deleteCorrection a zone msg (Some name) t \<in> set (conflictDeletes a zone msg k name records)"
  by (force simp: conflictDeletes_def List.map_filter_def)

lemma desired_updatesOf:
  "Key rc \<in> fst ` set n \<Longrightarrow> (Key rc, desired dc (Key rc)) \<in> set (updatesOf dc n)"
  by (force simp: updatesOf_def desired_def)

lemma planLoop_failed:
  assumes "\<And>cs. planLoop a zone records n ups acc \<noteq> Inr (cs, None)"
  shows "(\<exists>p. planLoop a zone records n ups acc = Inl p)
       \<or> (\<exists>e. planLoop a zone records n ups acc = Inr ([], Some e))"
proof (cases "planLoop a zone records n ups acc")
  case (Inl p)
  then show ?thesis by simp
next
  case (Inr res)
  obtain cs oe where res: "res = (cs, oe)" by (cases res)
  with Inr assms obtain e where "oe = Some e" by (cases oe) auto
  with Inr res planLoop_error [of a zone records n ups acc cs e] show ?thesis by simp
qed

lemma existingRecordsLoop_SOA:
  "existingRecordsLoop env origin records acc =
     existingRecordsLoop env origin
       (filter (\<lambda>r. rs_Type r \<noteq> Some ''Microsoft.Network/dnszones/SOA'') records) acc"
proof (induction records arbitrary: acc)
  case Nil
  show ?case by simp
next
  case (Cons r records)
  show ?case
  proof (cases "rs_Type r = Some ''Microsoft.Network/dnszones/SOA''")
    case True
    then have "nativeToRecords env r origin = Inr []"
      by (simp add: nativeToRecords_def)
    with True Cons.IH show ?thesis by simp
  next
    case False
    with Cons.IH show ?thesis by (simp split: sum.splits)
  qed
qed

section \<open>Properties\<close>

text \<open>
  C1. When the differ reports no changed key, \<^verbatim>\<open>GetDomainCorrections\<close> returns the empty
  sequence of corrections and no error, whatever the desired records and the listed
  record-sets are: the planning loop is not entered for any key.
\<close>
theorem no_changes_no_corrections:
  assumes "upToDiffer env a dc0 = Some (dc, zone, records, [])"
  shows "GetDomainCorrections env a dc0 = Inr ([], None)"
  using GetDomainCorrections_plan [OF assms] by (simp add: updatesOf_def)

theorem no_changes_no_corrections_witness:
  "GetDomainCorrections (sampleEnv []) sampleProvider brokenConfig = Inr ([], None)"
  using no_changes_no_corrections [OF broken_upToDiffer [of "[]"]] .

text \<open>
  C2. Let \<open>k\<close> be a changed key that still has desired records, and let the plan succeed.
  Then the plan is: the corrections of the keys enumerated before \<open>k\<close>; then one delete for
  every existing record-set that conflicts with \<open>k\<close> (same fully-qualified name, the
  incoming or the existing type is CNAME, one of the two is A or AAAA), in the order of the
  listing; then the single upsert of \<open>k\<close>; then the corrections of the keys enumerated after
  \<open>k\<close>. Each such delete names the existing set by the label of the key's records and by
  the existing set's type.
\<close>
theorem conflict_deletes_before_upsert:
  assumes up: "upToDiffer env a dc0 = Some (dc, zone, records, pre @ (k, d) # post)"
    and recs: "desired dc k \<noteq> []"
    and ok: "GetDomainCorrections env a dc0 = Inr (cs, None)"
  shows "\<exists>before deletes rrset recordType after.
           planLoop a zone records (pre @ (k, d) # post) (updatesOf dc pre) [] = Inr (before, None)
         \<and> planLoop a zone records (pre @ (k, d) # post) (updatesOf dc post) [] = Inr (after, None)
         \<and> deletes = conflictDeletes a zone (msgOf (pre @ (k, d) # post) k) k
                        (rc_Name (last (desired dc k))) records
         \<and> (\<forall>r\<in>set records. \<forall>t. conflictType k r = Some t \<longrightarrow>
               deleteCorrection a zone (msgOf (pre @ (k, d) # post) k)
                 (Some (rc_Name (last (desired dc k)))) t \<in> set deletes)
         \<and> cs = before @ deletes @
                  [upsertCorrection a zone (msgOf (pre @ (k, d) # post) k)
                     (rc_Name (last (desired dc k))) recordType rrset] @ after"
proof -
  from plan_split [OF up ok] obtain before grp after where
    before: "planLoop a zone records (pre @ (k, d) # post) (updatesOf dc pre) [] = Inr (before, None)"
    and grp: "planLoop a zone records (pre @ (k, d) # post) [(k, desired dc k)] [] = Inr (grp, None)"
    and after: "planLoop a zone records (pre @ (k, d) # post) (updatesOf dc post) [] = Inr (after, None)"
    and cs: "cs = before @ grp @ after"
    by blast
  from group_upsert [OF grp recs] obtain rrset0 recordType where
    "grp = conflictDeletes a zone (msgOf (pre @ (k, d) # post) k) k
             (rc_Name (last (desired dc k))) records @
           [upsertCorrection a zone (msgOf (pre @ (k, d) # post) k)
              (rc_Name (last (desired dc k))) recordType
              (rrset0\<lparr>rs_TTL := Some (ucast (rc_TTL (last (desired dc k))))\<rparr>)]"
    by blast
  with before after cs show ?thesis
    by (auto intro: conflictDeletes_complete)
qed

theorem conflict_deletes_before_upsert_witness:
  "\<exists>recordType rrset after.
     samplePlan =
       [deleteCorrection sampleProvider sampleZone ''CREATE CNAME host'' (Some ''host'') A,
        upsertCorrection sampleProvider sampleZone ''CREATE CNAME host'' ''host'' recordType rrset]
       @ after"
proof -
  let ?k = "\<lparr>k_NameFQDN = ''host.example.com'', k_Type = ''CNAME''\<rparr>"
  have up: "upToDiffer (sampleEnv sampleChanges) sampleProvider sampleConfig =
      Some (sampleConfig, sampleZone, sampleListing,
            [] @ (?k, [''CREATE CNAME host'']) # tl sampleChanges)"
    by (simp add: sample_upToDiffer) (simp add: sampleChanges_def)
  have recs: "desired sampleConfig ?k = [hostCNAME]"
    by (simp add: desired_def Key_def sample_defs)
  have dels: "conflictDeletes sampleProvider sampleZone ''CREATE CNAME host'' ?k ''host'' sampleListing =
      [deleteCorrection sampleProvider sampleZone ''CREATE CNAME host'' (Some ''host'') A]"
    by (simp add: conflictDeletes_def List.map_filter_def conflictType_def TrimSuffix_def
        nativeToRecordType_def azureRecordToRecordType_def sample_defs)
  have msg: "msgOf ([] @ (?k, [''CREATE CNAME host'']) # tl sampleChanges) ?k = ''CREATE CNAME host''"
    by (simp add: msgOf_def)
  have name: "rc_Name (last (desired sampleConfig ?k)) = ''host''"
    by (simp add: recs) (simp add: sample_defs)
  from conflict_deletes_before_upsert [OF up _ sample_plan]
  show ?thesis
    unfolding msg name dels by (simp add: recs updatesOf_def) blast
qed



text \<open>
  C4. Whenever \<^verbatim>\<open>GetDomainCorrections\<close> returns an error, it returns no corrections with it:
  the corrections appended for earlier keys are dropped.
\<close>
theorem error_returns_no_corrections:
  assumes "GetDomainCorrections env a dc0 = Inr (cs, Some e)"
  shows "cs = []"
proof (cases "upToDiffer env a dc0")
  case None
  from GetDomainCorrections_early [OF None] assms show ?thesis by auto
next
  case (Some reached)
  obtain dc zone records n where "reached = (dc, zone, records, n)" by (cases reached)
  with Some have "upToDiffer env a dc0 = Some (dc, zone, records, n)" by simp
  from GetDomainCorrections_plan [OF this] assms
  have "planLoop a zone records n (updatesOf dc n) [] = Inr (cs, Some e)" by simp
  then show ?thesis by (rule planLoop_error)
qed


theorem error_returns_no_corrections_witness:
  "planLoop sampleProvider sampleZone sampleListing brokenChanges
     [hd (updatesOf brokenConfig brokenChanges)] [] =
     Inr ([deleteCorrection sampleProvider sampleZone ''CREATE CNAME host'' (Some ''host'') A,
           upsertCorrection sampleProvider sampleZone ''CREATE CNAME host'' ''host'' CNAME
             ((newRecordSet ''CNAME'')
                \<lparr>rs_TTL := Some 300, rs_CnameRecord := Some ''target.example.com.''\<rparr>)], None)
   \<and> fst (projr (GetDomainCorrections (sampleEnv brokenChanges) sampleProvider brokenConfig)) = []"
proof
  show "planLoop sampleProvider sampleZone sampleListing brokenChanges
     [hd (updatesOf brokenConfig brokenChanges)] [] =
     Inr ([deleteCorrection sampleProvider sampleZone ''CREATE CNAME host'' (Some ''host'') A,
           upsertCorrection sampleProvider sampleZone ''CREATE CNAME host'' ''host'' CNAME
             ((newRecordSet ''CNAME'')
                \<lparr>rs_TTL := Some 300, rs_CnameRecord := Some ''target.example.com.''\<rparr>)], None)"
    by (simp add: updatesOf_def Key_def recordToNative_def nativeToRecordType_def
        azureRecordToRecordType_def TrimSuffix_def msgOf_def appended_def deleteCorrection_def
        upsertCorrection_def sample_defs)
  obtain cs where "GetDomainCorrections (sampleEnv brokenChanges) sampleProvider brokenConfig =
      Inr (cs, Some (noRecordSetFound \<lparr>k_NameFQDN = ''gone.example.com'', k_Type = ''A''\<rparr>))"
    using broken_plan by blast
  from error_returns_no_corrections [OF this] this
  show "fst (projr (GetDomainCorrections (sampleEnv brokenChanges) sampleProvider brokenConfig)) = []"
    by simp
qed

text \<open>
  C5. In a successful plan, the payload of the upsert of a key is the record-set built by
  \<^verbatim>\<open>recordToNative\<close> from the key's desired records with its TTL set to the TTL of the last
  of these records (as an \<^verbatim>\<open>int64\<close> of the same value); the TTLs of the earlier records do
  not appear in it.
\<close>
theorem upsert_ttl_of_last_record:
  assumes up: "upToDiffer env a dc0 = Some (dc, zone, records, pre @ (k, d) # post)"
    and recs: "desired dc k \<noteq> []"
    and ok: "GetDomainCorrections env a dc0 = Inr (cs, None)"
  shows "\<exists>before deletes rrset0 recordType rrset after.
           planLoop a zone records (pre @ (k, d) # post) (updatesOf dc pre) [] = Inr (before, None)
         \<and> conflictScan a zone (msgOf (pre @ (k, d) # post) k) k
              (rc_Name (last (desired dc k))) records [] = Inr deletes
         \<and> recordToNative k (desired dc k) = Inr (rrset0, recordType)
         \<and> rrset = rrset0\<lparr>rs_TTL := Some (ucast (rc_TTL (last (desired dc k))))\<rparr>
         \<and> (\<exists>ttl. rs_TTL rrset = Some ttl \<and> sint ttl = uint (rc_TTL (last (desired dc k))))
         \<and> cs = before @ deletes @
                  [upsertCorrection a zone (msgOf (pre @ (k, d) # post) k)
                     (rc_Name (last (desired dc k))) recordType rrset] @ after"
proof -
  let ?n = "pre @ (k, d) # post"
  from plan_split [OF up ok] obtain before grp after where
    before: "planLoop a zone records ?n (updatesOf dc pre) [] = Inr (before, None)"
    and grp: "planLoop a zone records ?n [(k, desired dc k)] [] = Inr (grp, None)"
    and cs: "cs = before @ grp @ after"
    by blast
  from grp recs obtain rrset0 recordType deletes where
    native: "recordToNative k (desired dc k) = Inr (rrset0, recordType)"
    and scan: "conflictScan a zone (msgOf ?n k) k (rc_Name (last (desired dc k))) records [] = Inr deletes"
    and grp_eq: "grp = deletes @
           [upsertCorrection a zone (msgOf ?n k) (rc_Name (last (desired dc k))) recordType
              (rrset0\<lparr>rs_TTL := Some (ucast (rc_TTL (last (desired dc k))))\<rparr>)]"
    by (auto simp del: planLoop.simps(2) simp: planLoop_upsert_step continued_def
        split: sum.splits option.splits prod.splits)
  from before native scan grp_eq cs show ?thesis
    by (auto simp: sint_ucast_32_64)
qed

theorem upsert_ttl_of_last_record_witness:
  "rc_TTL www1 = 300 \<and> rc_TTL www2 = 600 \<and>
   (\<exists>before rrset0 after. samplePlan = before @
      [upsertCorrection sampleProvider sampleZone
         (''CREATE A www 1.2.3.4'' @ [CHR 0x0A] @ ''CREATE A www 1.2.3.5'') ''www'' A
         (rrset0\<lparr>rs_TTL := Some 600\<rparr>)] @ after)"
proof -
  let ?k = "\<lparr>k_NameFQDN = ''www.example.com'', k_Type = ''A''\<rparr>"
  have up: "upToDiffer (sampleEnv sampleChanges) sampleProvider sampleConfig =
      Some (sampleConfig, sampleZone, sampleListing,
            [hd sampleChanges, hd (tl sampleChanges)]
            @ (?k, [''CREATE A www 1.2.3.4'', ''CREATE A www 1.2.3.5'']) # [])"
    by (simp add: sample_upToDiffer) (simp add: sampleChanges_def)
  have recs: "desired sampleConfig ?k = [www1, www2]"
    by (simp add: desired_def Key_def sample_defs)
  have scan: "conflictScan sampleProvider sampleZone m ?k ''www'' sampleListing [] = Inr []" for m
    by (simp add: TrimSuffix_def nativeToRecordType_def azureRecordToRecordType_def sample_defs)
  have native: "recordToNative ?k [www1, www2] =
      Inr ((newRecordSet ''A'')\<lparr>rs_ARecords := Some [''1.2.3.4'', ''1.2.3.5'']\<rparr>, A)"
    by (simp add: recordToNative_def nativeToRecordType_def appended_def sample_defs)
  have msg: "msgOf ([hd sampleChanges, hd (tl sampleChanges)]
            @ (?k, [''CREATE A www 1.2.3.4'', ''CREATE A www 1.2.3.5'']) # []) ?k
      = ''CREATE A www 1.2.3.4'' @ [CHR 0x0A] @ ''CREATE A www 1.2.3.5''"
    by (simp add: msgOf_def sampleChanges_def)
  have ttls: "rc_TTL www1 = 300 \<and> rc_TTL www2 = 600" and name: "rc_Name www2 = ''www''"
    by (simp_all add: sample_defs)
  from upsert_ttl_of_last_record [OF up _ sample_plan]
  have "\<exists>before after. samplePlan = before @
      [upsertCorrection sampleProvider sampleZone
         (''CREATE A www 1.2.3.4'' @ [CHR 0x0A] @ ''CREATE A www 1.2.3.5'') ''www'' A
         ((newRecordSet ''A'')\<lparr>rs_ARecords := Some [''1.2.3.4'', ''1.2.3.5'']\<rparr>
            \<lparr>rs_TTL := Some 600\<rparr>)] @ after"
    unfolding msg recs by (simp add: scan native name ttls) blast
  with ttls show ?thesis by blast
qed



text \<open>
  C7. If a desired record has a type that is not a supported record type and the differ
  reports its key as changed, planning fails: the method panics or returns an error, and
  in both cases it hands no correction to its caller, so no action of a correction can be
  run for the zone.
\<close>
theorem unsupported_type_is_fatal:
  assumes up: "upToDiffer env a dc0 = Some (dc, zone, records, n)"
    and rc: "rc \<in> set (dc_Records dc)"
    and unsupported: "rc_Type rc \<notin> set supportedTypes"
    and reported: "Key rc \<in> fst ` set n"
  shows "(\<exists>p. GetDomainCorrections env a dc0 = Inl p)
       \<or> (\<exists>e. GetDomainCorrections env a dc0 = Inr ([], Some e))"
proof -
  have mem: "(Key rc, desired dc (Key rc)) \<in> set (updatesOf dc n)"
    using reported by (rule desired_updatesOf)
  have nonempty: "desired dc (Key rc) \<noteq> []"
    using rc by (auto simp: desired_def filter_empty_conv)
  have ktype: "k_Type (Key rc) \<notin> set supportedTypes"
    using unsupported by (simp add: Key_def)
  have "planLoop a zone records n (updatesOf dc n) [] \<noteq> Inr (cs, None)" for cs
    by (rule planLoop_unsupported [OF mem nonempty ktype])
  from planLoop_failed [OF this] show ?thesis
    by (simp add: GetDomainCorrections_plan [OF up])
qed

theorem unsupported_type_is_fatal_witness:
  "(\<exists>p. GetDomainCorrections
          (sampleEnv [(\<lparr>k_NameFQDN = ''apex.example.com'', k_Type = ''ALIAS''\<rparr>, [''CREATE ALIAS apex''])])
          sampleProvider brokenConfig = Inl p)
   \<or> (\<exists>e. GetDomainCorrections
          (sampleEnv [(\<lparr>k_NameFQDN = ''apex.example.com'', k_Type = ''ALIAS''\<rparr>, [''CREATE ALIAS apex''])])
          sampleProvider brokenConfig = Inr ([], Some e))"
proof (rule unsupported_type_is_fatal [OF broken_upToDiffer, of aliasRecord])
  show "aliasRecord \<in> set (dc_Records brokenConfig)"
    by (simp add: brokenConfig_def)
  show "rc_Type aliasRecord \<notin> set supportedTypes"
    by (simp add: supportedTypes_def aliasRecord_def desiredRecord_def)
  show "Key aliasRecord \<in> fst `
      set [(\<lparr>k_NameFQDN = ''apex.example.com'', k_Type = ''ALIAS''\<rparr>, [''CREATE ALIAS apex''])]"
    by (simp add: Key_def aliasRecord_def desiredRecord_def)
qed

text \<open>
  C8. \<^verbatim>\<open>nativeToRecords\<close> turns an SOA record-set into the empty list of records, without
  panicking; the existing records handed to the differ are those of the listing without its
  SOA sets. In the plan, an SOA set is never the target of a conflict-clearing delete, and
  it matches no key of another type.
\<close>
theorem soa_sets_give_no_records:
  "(rs_Type rset = Some ''Microsoft.Network/dnszones/SOA'' \<longrightarrow>
      nativeToRecords env rset origin = Inr []
      \<and> conflictType k rset = None
      \<and> (k_Type k \<noteq> ''SOA'' \<longrightarrow> \<not> matches k rset))
   \<and> existingRecordsLoop env origin records acc =
       existingRecordsLoop env origin
         (filter (\<lambda>r. rs_Type r \<noteq> Some ''Microsoft.Network/dnszones/SOA'') records) acc"
proof (intro conjI impI)
  assume soa: "rs_Type rset = Some ''Microsoft.Network/dnszones/SOA''"
  show "nativeToRecords env rset origin = Inr []"
    using soa by (simp add: nativeToRecords_def)
  have azure: "azureRecordToRecordType (rs_Type rset) = Inr SOA"
    using soa by (simp add: azureRecordToRecordType_def)
  show "conflictType k rset = None"
    by (auto simp: conflictType_def azure split: option.splits sum.splits)
  assume "k_Type k \<noteq> ''SOA''"
  then have "nativeToRecordType (Some (k_Type k)) \<noteq> Inr SOA"
    by (simp add: nativeToRecordType_def)
  then show "\<not> matches k rset"
    by (simp add: matches_def azure split: option.splits)
next
  show "existingRecordsLoop env origin records acc =
       existingRecordsLoop env origin
         (filter (\<lambda>r. rs_Type r \<noteq> Some ''Microsoft.Network/dnszones/SOA'') records) acc"
    by (rule existingRecordsLoop_SOA)
qed

theorem soa_sets_give_no_records_witness:
  "nativeToRecords (sampleEnv []) zoneSOA ''example.com'' = Inr []
   \<and> existingRecordsLoop (sampleEnv []) ''example.com'' sampleListing [] =
       existingRecordsLoop (sampleEnv []) ''example.com'' [hostA] []"
proof -
  have soa: "rs_Type zoneSOA = Some ''Microsoft.Network/dnszones/SOA''"
    by (simp add: zoneSOA_def newRecordSet_def)
  have keep: "filter (\<lambda>r. rs_Type r \<noteq> Some ''Microsoft.Network/dnszones/SOA'') sampleListing = [hostA]"
    by (simp add: sample_defs)
  from soa_sets_give_no_records [of zoneSOA "sampleEnv []" "''example.com''" _ sampleListing "[]"]
  show ?thesis by (simp add: soa keep)
qed

text \<open>
  C9. \<^verbatim>\<open>EnsureDomainExists\<close> does nothing and returns no error when the domain is a key of
  the zone map; otherwise it issues exactly one zone-creation request, for that domain in
  the provider's resource group, and returns that request's error.
\<close>
theorem EnsureDomainExists_known_or_created:
  "(zones a domain \<noteq> None \<longrightarrow> EnsureDomainExists env a domain = (a, [], None))
   \<and> (zones a domain = None \<longrightarrow>
        (case EnsureDomainExists env a domain of
           (a', events, err) \<Rightarrow>
             filter isZoneCreation events =
               [ZonesCreateOrUpdate (resourceGroup a) domain
                  \<lparr>z_Name = None, z_Location = Some ''global'', z_ZoneProperties = None\<rparr>]
             \<and> err = ZonesClientCreateOrUpdate env (resourceGroup a) domain
                  \<lparr>z_Name = None, z_Location = Some ''global'', z_ZoneProperties = None\<rparr>))"
  by (auto simp: EnsureDomainExists_def Let_def isZoneCreation_def)

theorem EnsureDomainExists_known_or_created_witness:
  "EnsureDomainExists (sampleEnv []) sampleProvider ''example.com'' = (sampleProvider, [], None)
   \<and> filter isZoneCreation (fst (snd (EnsureDomainExists (sampleEnv []) sampleProvider ''missing.org'')))
       = [ZonesCreateOrUpdate ''dns'' ''missing.org''
            \<lparr>z_Name = None, z_Location = Some ''global'', z_ZoneProperties = None\<rparr>]"
proof -
  have known: "zones sampleProvider ''example.com'' \<noteq> None"
    and unknown: "zones sampleProvider ''missing.org'' = None"
    and rg: "resourceGroup sampleProvider = ''dns''"
    by (simp_all add: sampleProvider_def)
  from EnsureDomainExists_known_or_created [of sampleProvider "''example.com''" "sampleEnv []"]
    EnsureDomainExists_known_or_created [of sampleProvider "''missing.org''" "sampleEnv []"]
  show ?thesis
    using known unknown rg by (auto split: prod.splits)
qed

text \<open>
  C10. \<^verbatim>\<open>EnsureDomainExists\<close> leaves the provider's zone map as it was, whatever the
  creation request answers. So after it ran for an unknown domain, \<^verbatim>\<open>GetNameservers\<close> and
  \<^verbatim>\<open>GetDomainCorrections\<close> on the same provider still return \<^verbatim>\<open>errNoExist\<close> for that domain.
\<close>
theorem EnsureDomainExists_keeps_zones:
  "zones (fst (EnsureDomainExists env a domain)) = zones a
   \<and> (zones a domain = None \<longrightarrow>
        GetNameservers (fst (EnsureDomainExists env a domain)) domain
          = Inr ([], Some (errNoExist domain))
        \<and> (\<forall>dc0 dc. Punycode env dc0 = Inr dc \<and> dc_Name dc = domain \<longrightarrow>
              GetDomainCorrections env (fst (EnsureDomainExists env a domain)) dc0
                = Inr ([], Some (errNoExist domain))))"
  using GetNameservers_unknown [of a domain] GetDomainCorrections_unknown [of env _ _ a]
  by (auto simp: EnsureDomainExists_provider)

theorem EnsureDomainExists_keeps_zones_witness:
  "snd (snd (EnsureDomainExists (sampleEnv []) sampleProvider ''missing.org'')) = None
   \<and> GetNameservers (fst (EnsureDomainExists (sampleEnv []) sampleProvider ''missing.org''))
        ''missing.org'' = Inr ([], Some (errNoExist ''missing.org''))"
proof -
  have unknown: "zones sampleProvider ''missing.org'' = None"
    by (simp add: sampleProvider_def)
  have created: "snd (snd (EnsureDomainExists (sampleEnv []) sampleProvider ''missing.org'')) = None"
    by (simp add: EnsureDomainExists_def Let_def sampleProvider_def sampleEnv_def)
  from EnsureDomainExists_keeps_zones [of "sampleEnv []" sampleProvider "''missing.org''"]
    unknown created
  show ?thesis by simp
qed

end
